theory Spec2Isabelle
  imports Main
begin

section \<open>JavaScript numbers\<close>

text \<open>
  Every value of type \<^verbatim>\<open>number\<close> in \<^verbatim>\<open>src/App.tsx\<close> is an IEEE 754 binary64 value, and
  \<^verbatim>\<open>+\<close>, \<^verbatim>\<open>-\<close> and \<^verbatim>\<open>/\<close> round to nearest, ties to even. A finite value is
  \<open>Finite s m e\<close>, standing for \<open>(-1)\<^sup>s * m * 2\<^sup>e\<close>, in the canonical form of the format:
  \<open>2\<^sup>5\<^sup>2 \<le> m < 2\<^sup>5\<^sup>3\<close> and \<open>-1074 \<le> e \<le> 971\<close> for a normal number, \<open>m < 2\<^sup>5\<^sup>2\<close> and
  \<open>e = -1074\<close> for a subnormal one or a zero. The sign \<open>True\<close> is minus.
\<close>

datatype double = NaN | Infinity bool | Finite bool int int

function bit_length :: "int \<Rightarrow> int" where
  "bit_length n = (if n \<le> 0 then 0 else 1 + bit_length (n div 2))"
  by pat_completeness auto
termination
  by (relation "measure nat") auto

declare bit_length.simps [simp del]

text \<open>
  \<open>round_double s m e\<close> is the binary64 value nearest to \<open>(-1)\<^sup>s * m * 2\<^sup>e\<close> for any
  magnitude \<open>m \<ge> 0\<close> and exponent \<open>e\<close>: \<open>d\<close> low bits are dropped (none when the value is
  representable), a tie goes to the even mantissa, a carry out of 53 bits renormalises, and
  a value beyond the largest finite number becomes an infinity.
\<close>

definition round_double :: "bool \<Rightarrow> int \<Rightarrow> int \<Rightarrow> double" where
  "round_double s m e =
     (if m = 0 then Finite s 0 (- 1074)
      else
        let k = bit_length m;
            d = max (k - 53) (- 1074 - e)
        in if d \<le> 0
           then (let sh = min (53 - k) (e + 1074)
                 in if e - sh > 971 then Infinity s
                    else Finite s (m * 2 ^ nat sh) (e - sh))
           else (let q = m div 2 ^ nat d;
                     r = m mod 2 ^ nat d;
                     h = 2 ^ nat (d - 1);
                     q' = (if r > h \<or> (r = h \<and> odd q) then q + 1 else q);
                     e' = e + d
                 in if q' = 2 ^ 53
                    then (if e' + 1 > 971 then Infinity s else Finite s (2 ^ 52) (e' + 1))
                    else if e' > 971 then Infinity s else Finite s q' e'))"

definition signed :: "bool \<Rightarrow> int \<Rightarrow> int" where
  "signed s m = (if s then - m else m)"

text \<open>The operator \<^verbatim>\<open>+\<close> on two numbers.\<close>

fun fadd :: "double \<Rightarrow> double \<Rightarrow> double" where
  "fadd NaN _ = NaN"
| "fadd _ NaN = NaN"
| "fadd (Infinity s) (Infinity t) = (if s = t then Infinity s else NaN)"
| "fadd (Infinity s) (Finite _ _ _) = Infinity s"
| "fadd (Finite _ _ _) (Infinity t) = Infinity t"
| "fadd (Finite s1 m1 e1) (Finite s2 m2 e2) =
     (let e = min e1 e2;
          t = signed s1 (m1 * 2 ^ nat (e1 - e)) + signed s2 (m2 * 2 ^ nat (e2 - e))
      in if t = 0 then Finite (s1 \<and> s2) 0 (- 1074)
         else round_double (t < 0) \<bar>t\<bar> e)"

fun fneg :: "double \<Rightarrow> double" where
  "fneg NaN = NaN"
| "fneg (Infinity s) = Infinity (\<not> s)"
| "fneg (Finite s m e) = Finite (\<not> s) m e"

text \<open>The operator \<^verbatim>\<open>-\<close> on two numbers.\<close>

definition fsub :: "double \<Rightarrow> double \<Rightarrow> double" where
  "fsub a b = fadd a (fneg b)"

text \<open>
  The operator \<^verbatim>\<open>/\<close> on two numbers. The quotient of the mantissas is taken to at least 56
  bits, with one more bit that records a remainder, and rounded once.
\<close>

fun fdiv :: "double \<Rightarrow> double \<Rightarrow> double" where
  "fdiv NaN _ = NaN"
| "fdiv _ NaN = NaN"
| "fdiv (Infinity s) (Infinity t) = NaN"
| "fdiv (Infinity s) (Finite t _ _) = Infinity (s \<noteq> t)"
| "fdiv (Finite s _ _) (Infinity t) = Finite (s \<noteq> t) 0 (- 1074)"
| "fdiv (Finite s1 m1 e1) (Finite s2 m2 e2) =
     (if m2 = 0 then (if m1 = 0 then NaN else Infinity (s1 \<noteq> s2))
      else
        let n = nat (55 + bit_length m2);
            q = (m1 * 2 ^ n) div m2;
            sticky = (if (m1 * 2 ^ n) mod m2 = 0 then 0 else 1)
        in round_double (s1 \<noteq> s2) (2 * q + sticky) (e1 - e2 - int n - 1))"

text \<open>An integer literal of the source, such as \<^verbatim>\<open>0\<close>, \<^verbatim>\<open>1\<close> or \<^verbatim>\<open>2\<close>.\<close>

definition fnat :: "int \<Rightarrow> double" where
  "fnat n = round_double False n 0"

text \<open>The literal \<^verbatim>\<open>0.1\<close>: the binary64 value \<^verbatim>\<open>0x3FB999999999999A\<close>.\<close>

definition lit_0_1 :: double where
  "lit_0_1 = Finite False 7205759403792794 (- 56)"

text \<open>\<^verbatim>\<open>Math.PI\<close>: the binary64 value \<^verbatim>\<open>0x400921FB54442D18\<close>.\<close>

definition Math_PI :: double where
  "Math_PI = Finite False 7074237752028440 (- 51)"

section \<open>Data\<close>

text \<open>\<^verbatim>\<open>interface GyroData { x: number, y: number, z: number }\<close>\<close>

datatype GyroData = GyroData (data_x: double) (data_y: double) (data_z: double)

text \<open>The tuple type \<^verbatim>\<open>[number, number, number]\<close>.\<close>

type_synonym vec3 = "double \<times> double \<times> double"

datatype js_error = SyntaxError | TypeError

section \<open>The component \<^verbatim>\<open>Scene\<close>\<close>

text \<open>
  What \<^verbatim>\<open>Scene\<close> puts inside its canvas: \<^verbatim>\<open><Center rotation scale>\<close> around the scene
  loaded from a URL, or \<^verbatim>\<open><Box rotation scale/>\<close>. The camera and the three lights are the
  same in both branches and are left out; \<^verbatim>\<open>useGLTF\<close> belongs to a library, and of the
  asset it loads only the URL asked for is kept.
\<close>

datatype element = Center vec3 double string | Box vec3 double

fun element_rotation :: "element \<Rightarrow> vec3" where
  "element_rotation (Center r s u) = r"
| "element_rotation (Box r s) = r"

fun element_scale :: "element \<Rightarrow> double" where
  "element_scale (Center r s u) = s"
| "element_scale (Box r s) = s"

text \<open>
  Truthiness of a value of type \<^verbatim>\<open>string | null | undefined\<close>: \<^verbatim>\<open>null\<close>, \<^verbatim>\<open>undefined\<close>
  (both \<open>None\<close>) and the empty string are falsy.
\<close>

definition truthy :: "string option \<Rightarrow> bool" where
  "truthy v = (case v of None \<Rightarrow> False | Some s \<Rightarrow> s \<noteq> [])"

text \<open>
  \<^verbatim>\<open>function Scene(props)\<close>, lines 42 to 73. The optional prop \<^verbatim>\<open>modelRotation\<close> is an
  array when present, hence truthy, so \<^verbatim>\<open>props.modelRotation || [0, 0, 0]\<close> takes the
  default only when the prop is absent.
\<close>

definition Scene :: "vec3 option \<Rightarrow> string option \<Rightarrow> double \<Rightarrow> vec3 \<Rightarrow> element" where
  "Scene props_modelRotation props_gltf props_modelScale props_rotation =
     (let modelRotation = (case props_modelRotation of
                             None \<Rightarrow> (fnat 0, fnat 0, fnat 0)
                           | Some v \<Rightarrow> v);
          unifiedRotation =
            (case props_rotation of (r0, r1, r2) \<Rightarrow>
               case modelRotation of (m0, m1, m2) \<Rightarrow>
                 (fadd r0 m0, fadd r1 m1, fadd r2 m2))
      in case props_gltf of
           None \<Rightarrow> Box unifiedRotation props_modelScale
         | Some u \<Rightarrow>
             if truthy props_gltf then Center unifiedRotation props_modelScale u
             else Box unifiedRotation props_modelScale)"

section \<open>The component \<^verbatim>\<open>App\<close>: state, browser objects, view\<close>

text \<open>The ten \<^verbatim>\<open>useState\<close> cells of \<^verbatim>\<open>App\<close>, lines 76 to 86.\<close>

record app_state =
  connectionDialogOpen :: bool
  modelDialogOpen :: bool
  connectionUrl :: string
  changeConnectionUrl :: bool
  modelRotation :: vec3
  modelScale :: double
  rotation :: vec3
  model :: "string option"
  eventSource :: "nat option"
  connectionError :: "string option"

text \<open>
  An \<^verbatim>\<open>EventSource\<close> object: the URL it was created with and its \<^verbatim>\<open>readyState\<close>. The
  objects live in a list in creation order; the state cell \<^verbatim>\<open>eventSource\<close> holds the
  position of one of them.
\<close>

datatype ready_state = CONNECTING | OPEN | CLOSED

record event_source =
  src_url :: string
  readyState :: ready_state

text \<open>
  A call of \<^verbatim>\<open>fetch\<close> and what the source chains on its promise: line 125 chains
  \<^verbatim>\<open>.catch((e) => console.error(e))\<close>, lines 206 to 210 chain \<^verbatim>\<open>.then(...)\<close> and
  \<^verbatim>\<open>.catch()\<close>, whose callback reads the \<^verbatim>\<open>connectionUrl\<close> of the render in which the
  file was chosen.
\<close>

datatype fetch_outcome = Response nat | NetworkFailure

datatype chain = Reset_chain | Upload_chain string

record fetch_call =
  fetch_method :: string
  fetch_url :: string
  fetch_body :: "string option"
  fetch_chain :: chain
  settled :: bool

datatype console_entry = Log string | Error js_error

text \<open>
  The component together with the browser objects it creates. \<open>mounted\<close> turns false when
  an error thrown inside the effect makes React unmount the tree; \<open>uncaught\<close> collects
  what the browser reports as uncaught: errors thrown by an event listener or by the effect,
  and promise rejections with no handler.
\<close>

record world =
  app :: app_state
  mounted :: bool
  sources :: "event_source list"
  fetches :: "fetch_call list"
  console :: "console_entry list"
  uncaught :: "js_error list"

text \<open>
  What the source takes from its environment: \<^verbatim>\<open>window.location.origin\<close>; the library
  function \<^verbatim>\<open>JSON.parse\<close>, which throws or returns a value that the source declares to be
  a \<^verbatim>\<open>GyroData\<close> (the annotation checks nothing, and the model follows it: a payload
  that is valid JSON of another shape is outside the model); and whether the
  \<^verbatim>\<open>EventSource\<close> constructor can resolve a URL (it throws a \<^verbatim>\<open>SyntaxError\<close> when it
  cannot).
\<close>

record env =
  window_location_origin :: string
  JSON_parse :: "string \<Rightarrow> js_error + GyroData"
  url_resolves :: "string \<Rightarrow> bool"

text \<open>The JSX returned by \<^verbatim>\<open>App\<close>, lines 115 to 224, without the static menu.\<close>

record view =
  banner :: "string option"
  connection_dialog :: bool
  connection_input :: string
  model_dialog :: bool
  scene :: element

definition App_view :: "app_state \<Rightarrow> view" where
  "App_view a =
     \<lparr> banner = (if truthy (connectionError a) then connectionError a else None),
       connection_dialog = connectionDialogOpen a,
       connection_input = connectionUrl a,
       model_dialog = modelDialogOpen a,
       scene = Scene (Some (modelRotation a)) (model a) (modelScale a) (rotation a) \<rparr>"

definition initial_state :: "env \<Rightarrow> app_state" where
  "initial_state env =
     \<lparr> connectionDialogOpen = False,
       modelDialogOpen = False,
       connectionUrl = window_location_origin env,
       changeConnectionUrl = True,
       modelRotation = (fnat 0, fnat 0, fnat 0),
       modelScale = fnat 1,
       rotation = (fnat 0, fnat 0, fnat 0),
       model = None,
       eventSource = None,
       connectionError = None \<rparr>"

text \<open>A state setter: React drops the update of a component that is no longer mounted.\<close>

definition setState :: "(app_state \<Rightarrow> app_state) \<Rightarrow> world \<Rightarrow> world" where
  "setState f w = (if mounted w then w\<lparr>app := f (app w)\<rparr> else w)"

section \<open>The connection effect\<close>

text \<open>\<^verbatim>\<open>source.close()\<close> on the object at position \<open>i\<close>.\<close>

definition close :: "nat \<Rightarrow> event_source list \<Rightarrow> event_source list" where
  "close i srcs = (if i < length srcs then srcs[i := (srcs ! i)\<lparr>readyState := CLOSED\<rparr>] else srcs)"

text \<open>Lines 90 to 92: \<^verbatim>\<open>if (eventSource) { eventSource.close(); }\<close>\<close>

definition close_previous :: "world \<Rightarrow> world" where
  "close_previous w =
     (case eventSource (app w) of
        None \<Rightarrow> w
      | Some i \<Rightarrow> w\<lparr>sources := close i (sources w)\<rparr>)"

text \<open>
  Lines 94 to 111: the error is cleared, the new \<^verbatim>\<open>EventSource\<close> is created (in state
  \<open>CONNECTING\<close>) and gets its three listeners, and the state keeps it and lowers the flag.
  When the constructor throws, nothing after it runs and React unmounts the tree.
\<close>

definition open_next :: "env \<Rightarrow> world \<Rightarrow> world" where
  "open_next env w =
     (let u = connectionUrl (app w) @ ''/events''
      in if url_resolves env u
         then w\<lparr>sources := sources w @ [\<lparr>src_url = u, readyState = CONNECTING\<rparr>],
                 app := (app w)\<lparr>connectionError := None,
                                eventSource := Some (length (sources w)),
                                changeConnectionUrl := False\<rparr>\<rparr>
         else w\<lparr>mounted := False, uncaught := uncaught w @ [SyntaxError]\<rparr>)"

text \<open>The function given to \<^verbatim>\<open>useEffect\<close>, lines 88 to 113.\<close>

definition useEffect_body :: "env \<Rightarrow> world \<Rightarrow> world" where
  "useEffect_body env w =
     (if changeConnectionUrl (app w) then open_next env (close_previous w) else w)"

text \<open>The dependency array \<^verbatim>\<open>[connectionUrl, changeConnectionUrl, eventSource]\<close>.\<close>

definition deps :: "app_state \<Rightarrow> string \<times> bool \<times> nat option" where
  "deps a = (connectionUrl a, changeConnectionUrl a, eventSource a)"

text \<open>
  After a handler has run React renders again, and runs the effect when a dependency differs
  from the previous render; the effect sets state itself, so this repeats until nothing
  changes.
\<close>

function commit :: "env \<Rightarrow> app_state \<Rightarrow> world \<Rightarrow> world" where
  "commit env prev w =
     (if mounted w \<and> deps (app w) \<noteq> deps prev
      then commit env (app w) (useEffect_body env w)
      else w)"
  by pat_completeness auto
termination
  by (relation "measure (\<lambda>(env, prev, w).
        if mounted w \<and> deps (app w) \<noteq> deps prev
        then (if changeConnectionUrl (app w) then 2 else 1) else 0)")
     (auto simp: useEffect_body_def open_next_def close_previous_def deps_def Let_def
           split: option.splits)

declare commit.simps [simp del]

text \<open>
  Mounting: the first render, after which the effect always runs (once, as React runs it
  outside its development checks).
\<close>

definition mount :: "env \<Rightarrow> world" where
  "mount env =
     (let w = \<lparr> app = initial_state env, mounted = True, sources = [], fetches = [],
                console = [], uncaught = [] \<rparr>
      in commit env (app w) (useEffect_body env w))"

section \<open>Listeners and handlers\<close>

text \<open>Lines 97 to 99.\<close>

definition open_listener :: "world \<Rightarrow> world" where
  "open_listener w = w\<lparr>console := console w @ [Log ''Connection established'']\<rparr>"

text \<open>Lines 101 to 104, for the source at position \<open>i\<close>.\<close>

definition error_listener :: "nat \<Rightarrow> world \<Rightarrow> world" where
  "error_listener i w =
     (let w1 = setState (\<lambda>a. a\<lparr>connectionError := Some ''Connection could not be established''\<rparr>) w
      in w1\<lparr>sources := close i (sources w1)\<rparr>)"

text \<open>Lines 106 to 109. There is no \<^verbatim>\<open>try\<close>: what \<^verbatim>\<open>JSON.parse\<close> throws leaves the listener.\<close>

definition data_listener :: "env \<Rightarrow> string \<Rightarrow> world \<Rightarrow> js_error + world" where
  "data_listener env event_data w =
     (case JSON_parse env event_data of
        Inl e \<Rightarrow> Inl e
      | Inr data \<Rightarrow> Inr (setState (\<lambda>a. a\<lparr>rotation := (data_x data, data_z data, data_y data)\<rparr>) w))"

text \<open>An error thrown by a listener is reported by the browser and changes nothing else.\<close>

definition dispatch :: "js_error + world \<Rightarrow> world \<Rightarrow> world" where
  "dispatch r w = (case r of Inl e \<Rightarrow> w\<lparr>uncaught := uncaught w @ [e]\<rparr> | Inr w' \<Rightarrow> w')"

text \<open>The state updaters of lines 138, 142 and 146.\<close>

definition rotate_X :: "vec3 \<Rightarrow> vec3" where
  "rotate_X prevState =
     (case prevState of (p0, p1, p2) \<Rightarrow> (fadd p0 (fdiv Math_PI (fnat 2)), p1, p2))"

definition rotate_Y :: "vec3 \<Rightarrow> vec3" where
  "rotate_Y prevState =
     (case prevState of (p0, p1, p2) \<Rightarrow> (p0, fadd p1 (fdiv Math_PI (fnat 2)), p2))"

definition rotate_Z :: "vec3 \<Rightarrow> vec3" where
  "rotate_Z prevState =
     (case prevState of (p0, p1, p2) \<Rightarrow> (p0, p1, fadd p2 (fdiv Math_PI (fnat 2))))"

text \<open>A settled promise, and the two methods the source chains on one.\<close>

datatype 'a promise = Fulfilled 'a | Rejected js_error

definition fetch_promise :: "fetch_outcome \<Rightarrow> nat promise" where
  "fetch_promise outcome =
     (case outcome of Response status \<Rightarrow> Fulfilled status | NetworkFailure \<Rightarrow> Rejected TypeError)"

definition promise_then :: "('a \<Rightarrow> 's \<Rightarrow> 's) \<Rightarrow> 'a promise \<times> 's \<Rightarrow> unit promise \<times> 's" where
  "promise_then onFulfilled ps =
     (case fst ps of
        Fulfilled v \<Rightarrow> (Fulfilled (), onFulfilled v (snd ps))
      | Rejected e \<Rightarrow> (Rejected e, snd ps))"

text \<open>
  \<^verbatim>\<open>p.catch(onRejected)\<close> is \<^verbatim>\<open>p.then(undefined, onRejected)\<close>: with no callback
  (\<open>None\<close>) the new promise settles as \<^verbatim>\<open>p\<close> did, rejected with the same reason.
\<close>

definition promise_catch ::
  "(js_error \<Rightarrow> 's \<Rightarrow> 's) option \<Rightarrow> 'a promise \<times> 's \<Rightarrow> unit promise \<times> 's" where
  "promise_catch onRejected ps =
     (case fst ps of
        Fulfilled v \<Rightarrow> (Fulfilled (), snd ps)
      | Rejected e \<Rightarrow>
          (case onRejected of
             None \<Rightarrow> (Rejected e, snd ps)
           | Some h \<Rightarrow> (Fulfilled (), h e (snd ps))))"

text \<open>The last promise of a chain is dropped; rejected, it is an unhandled rejection.\<close>

definition drop_promise :: "unit promise \<times> world \<Rightarrow> world" where
  "drop_promise ps =
     (case fst ps of
        Fulfilled v \<Rightarrow> snd ps
      | Rejected e \<Rightarrow> (snd ps)\<lparr>uncaught := uncaught (snd ps) @ [e]\<rparr>)"

text \<open>Line 125: \<^verbatim>\<open>.catch((e) => console.error(e))\<close>\<close>

definition reset_chain :: "fetch_outcome \<Rightarrow> world \<Rightarrow> world" where
  "reset_chain outcome w =
     drop_promise
       (promise_catch (Some (\<lambda>e w'. w'\<lparr>console := console w' @ [Error e]\<rparr>))
          (fetch_promise outcome, w))"

text \<open>Lines 206 to 210: \<^verbatim>\<open>.then((res) => { if (res.status !== 404) ... }).catch()\<close>\<close>

definition upload_chain :: "string \<Rightarrow> fetch_outcome \<Rightarrow> world \<Rightarrow> world" where
  "upload_chain connectionUrl_seen outcome w =
     drop_promise
       (promise_catch None
          (promise_then
             (\<lambda>status w'. if status \<noteq> 404
                           then setState (\<lambda>a. a\<lparr>model := Some (connectionUrl_seen @ ''/model.glb'')\<rparr>) w'
                           else w')
             (fetch_promise outcome, w)))"

definition fetch :: "string \<Rightarrow> string \<Rightarrow> string option \<Rightarrow> chain \<Rightarrow> world \<Rightarrow> world" where
  "fetch m u b c w =
     w\<lparr>fetches := fetches w @
         [\<lparr>fetch_method = m, fetch_url = u, fetch_body = b, fetch_chain = c, settled = False\<rparr>]\<rparr>"

text \<open>
  What can happen to the mounted component: the user's actions, named after the menu items
  and buttons; the events of the \<^verbatim>\<open>EventSource\<close> at a position; a pending \<^verbatim>\<open>fetch\<close>
  settling.
\<close>

datatype event =
    Click_Setup_connection
  | Click_Reset_device_rotation
  | Click_Load_model
  | Click_Rotate_X
  | Click_Rotate_Y
  | Click_Rotate_Z
  | Click_Scale_by_0_1
  | Click_Scale_by_1
  | Click_Scale_by_minus_0_1
  | Click_Scale_by_minus_1
  | Connection_dialog_onOpenChange bool
  | Input_connectionUrl string
  | Click_Set_and_use
  | Click_Cancel_and_reset
  | Model_dialog_onOpenChange bool
  | Input_file "string option"
  | Click_Set
  | Click_Cancel
  | Source_open nat
  | Source_error nat
  | Source_data nat string
  | Fetch_settled nat fetch_outcome

fun user_event :: "event \<Rightarrow> bool" where
  "user_event (Source_open i) = False"
| "user_event (Source_error i) = False"
| "user_event (Source_data i d) = False"
| "user_event (Fetch_settled n outcome) = False"
| "user_event _ = True"

text \<open>
  The handlers, in the order of the source. The browser delivers \<^verbatim>\<open>open\<close> to a connecting
  source, which becomes \<open>OPEN\<close>; \<^verbatim>\<open>error\<close> to a source that is not closed; \<^verbatim>\<open>data\<close> to an
  open source; nothing to a closed one.
\<close>

fun handler :: "env \<Rightarrow> event \<Rightarrow> world \<Rightarrow> world" where
  "handler env Click_Setup_connection w = setState (\<lambda>a. a\<lparr>connectionDialogOpen := True\<rparr>) w"
| "handler env Click_Reset_device_rotation w =
     fetch ''GET'' (connectionUrl (app w) @ ''/reset'') None Reset_chain w"
| "handler env Click_Load_model w = setState (\<lambda>a. a\<lparr>modelDialogOpen := True\<rparr>) w"
| "handler env Click_Rotate_X w = setState (\<lambda>a. a\<lparr>modelRotation := rotate_X (modelRotation a)\<rparr>) w"
| "handler env Click_Rotate_Y w = setState (\<lambda>a. a\<lparr>modelRotation := rotate_Y (modelRotation a)\<rparr>) w"
| "handler env Click_Rotate_Z w = setState (\<lambda>a. a\<lparr>modelRotation := rotate_Z (modelRotation a)\<rparr>) w"
| "handler env Click_Scale_by_0_1 w =
     setState (\<lambda>a. a\<lparr>modelScale := fadd (modelScale a) lit_0_1\<rparr>) w"
| "handler env Click_Scale_by_1 w =
     setState (\<lambda>a. a\<lparr>modelScale := fadd (modelScale a) (fnat 1)\<rparr>) w"
| "handler env Click_Scale_by_minus_0_1 w =
     setState (\<lambda>a. a\<lparr>modelScale := fsub (modelScale a) lit_0_1\<rparr>) w"
| "handler env Click_Scale_by_minus_1 w =
     setState (\<lambda>a. a\<lparr>modelScale := fsub (modelScale a) (fnat 1)\<rparr>) w"
| "handler env (Connection_dialog_onOpenChange b) w =
     setState (\<lambda>a. a\<lparr>connectionDialogOpen := b\<rparr>) w"
| "handler env (Input_connectionUrl v) w = setState (\<lambda>a. a\<lparr>connectionUrl := v\<rparr>) w"
| "handler env Click_Set_and_use w =
     setState (\<lambda>a. a\<lparr>connectionDialogOpen := False, changeConnectionUrl := True\<rparr>) w"
| "handler env Click_Cancel_and_reset w =
     setState (\<lambda>a. a\<lparr>connectionUrl := window_location_origin env,
                     connectionDialogOpen := False\<rparr>) w"
| "handler env (Model_dialog_onOpenChange b) w = setState (\<lambda>a. a\<lparr>modelDialogOpen := b\<rparr>) w"
| "handler env (Input_file file) w =
     (case file of
        None \<Rightarrow> w
      | Some f \<Rightarrow>
          fetch ''POST'' (connectionUrl (app w) @ ''/uploadModel'') (Some f)
            (Upload_chain (connectionUrl (app w))) w)"
| "handler env Click_Set w = setState (\<lambda>a. a\<lparr>modelDialogOpen := False\<rparr>) w"
| "handler env Click_Cancel w = setState (\<lambda>a. a\<lparr>model := None, modelDialogOpen := False\<rparr>) w"
| "handler env (Source_open i) w =
     (if i < length (sources w) \<and> readyState (sources w ! i) = CONNECTING
      then open_listener (w\<lparr>sources := (sources w)[i := (sources w ! i)\<lparr>readyState := OPEN\<rparr>]\<rparr>)
      else w)"
| "handler env (Source_error i) w =
     (if i < length (sources w) \<and> readyState (sources w ! i) \<noteq> CLOSED
      then error_listener i w
      else w)"
| "handler env (Source_data i event_data) w =
     (if i < length (sources w) \<and> readyState (sources w ! i) = OPEN
      then dispatch (data_listener env event_data w) w
      else w)"
| "handler env (Fetch_settled n outcome) w =
     (if n < length (fetches w) \<and> \<not> settled (fetches w ! n)
      then (let w1 = w\<lparr>fetches := (fetches w)[n := (fetches w ! n)\<lparr>settled := True\<rparr>]\<rparr>
            in case fetch_chain (fetches w ! n) of
                 Reset_chain \<Rightarrow> reset_chain outcome w1
               | Upload_chain u \<Rightarrow> upload_chain u outcome w1)
      else w)"

text \<open>
  One event: its handler, then the renders and effects that follow. Without a mounted tree
  there is no menu and no dialog, hence no user action.
\<close>

definition step :: "env \<Rightarrow> event \<Rightarrow> world \<Rightarrow> world" where
  "step env ev w =
     (if user_event ev \<and> \<not> mounted w then w else commit env (app w) (handler env ev w))"

fun run :: "env \<Rightarrow> event list \<Rightarrow> world \<Rightarrow> world" where
  "run env [] w = w"
| "run env (ev # evs) w = run env evs (step env ev w)"

text \<open>The number of connections that are not closed.\<close>

definition live :: "world \<Rightarrow> nat" where
  "live w = length (filter (\<lambda>s. readyState s \<noteq> CLOSED) (sources w))"

text \<open>
  Environments to run the definitions in: a page origin whose URLs all resolve, with a
  stand-in for \<^verbatim>\<open>JSON.parse\<close> that throws on every payload, or one that reads the same
  sample from every payload.
\<close>

definition parse_fails :: "string \<Rightarrow> js_error + GyroData" where
  "parse_fails event_data = Inl SyntaxError"

definition parse_gives :: "GyroData \<Rightarrow> string \<Rightarrow> js_error + GyroData" where
  "parse_gives data event_data = Inr data"

definition page :: "(string \<Rightarrow> js_error + GyroData) \<Rightarrow> env" where
  "page parse =
     \<lparr> window_location_origin = ''http://localhost:5173'',
       JSON_parse = parse,
       url_resolves = (\<lambda>u. True) \<rparr>"

text \<open>
  What holds of the component between two events: the flag is down while the tree is
  mounted; every source but the one the state holds is closed; without a mounted tree every
  source is closed.
\<close>

definition consistent :: "world \<Rightarrow> bool" where
  "consistent w \<longleftrightarrow>
     (mounted w \<longrightarrow> \<not> changeConnectionUrl (app w)) \<and>
     (\<forall>j < length (sources w). eventSource (app w) \<noteq> Some j \<longrightarrow> readyState (sources w ! j) = CLOSED) \<and>
     (\<not> mounted w \<longrightarrow> (\<forall>j < length (sources w). readyState (sources w ! j) = CLOSED))"

section \<open>Renders and effects\<close>

text \<open>
  The loop of renders and effects comes down to one run of the effect when a dependency
  changed: a second run finds the flag down, or no tree.
\<close>

lemma commit_eq:
  "commit env prev w = (if mounted w \<and> deps (app w) \<noteq> deps prev then useEffect_body env w else w)"
proof (cases "mounted w \<and> deps (app w) \<noteq> deps prev")
  case False
  then show ?thesis by (subst commit.simps) auto
next
  case True
  let ?w = "useEffect_body env w"
  have "commit env (app w) ?w = ?w"
  proof (cases "mounted ?w \<and> deps (app ?w) \<noteq> deps (app w)")
    case False
    then show ?thesis by (subst commit.simps) auto
  next
    case T2: True
    then have nf: "\<not> changeConnectionUrl (app ?w)"
      by (auto simp: useEffect_body_def open_next_def close_previous_def deps_def Let_def
               split: option.splits if_splits)
    then have "useEffect_body env ?w = ?w"
      by (simp add: useEffect_body_def)
    then have "commit env (app ?w) (useEffect_body env ?w) = ?w"
      by (subst commit.simps) auto
    with T2 show ?thesis by (subst commit.simps) auto
  qed
  with True show ?thesis by (subst commit.simps) auto
qed

lemma effect_noflag: "\<not> changeConnectionUrl (app w) \<Longrightarrow> useEffect_body env w = w"
  by (simp add: useEffect_body_def)

lemma commit_same_deps: "deps (app w) = deps prev \<Longrightarrow> commit env prev w = w"
  by (simp add: commit_eq)

lemma commit_settled:
  "(mounted w \<longrightarrow> \<not> changeConnectionUrl (app w)) \<Longrightarrow> commit env prev w = w"
  by (auto simp: commit_eq effect_noflag)

section \<open>Connections stay consistent\<close>

lemma filter_le_one:
  "(\<forall>j < length xs. j \<noteq> i \<longrightarrow> \<not> P (xs ! j)) \<Longrightarrow> length (filter P xs) \<le> 1"
proof (induction xs arbitrary: i)
  case Nil
  then show ?case by simp
next
  case (Cons x xs)
  show ?case
  proof (cases i)
    case 0
    have "\<forall>y \<in> set xs. \<not> P y"
    proof
      fix y assume "y \<in> set xs"
      then obtain k where k: "k < length xs" "xs ! k = y" by (auto simp: in_set_conv_nth)
      with Cons.prems [rule_format, of "Suc k"] 0 show "\<not> P y" by auto
    qed
    then have "filter P xs = []" by (simp add: filter_empty_conv)
    then show ?thesis by simp
  next
    case (Suc k)
    have a: "\<forall>j < length xs. j \<noteq> k \<longrightarrow> \<not> P (xs ! j)"
    proof (intro allI impI)
      fix j assume "j < length xs" "j \<noteq> k"
      with Cons.prems [rule_format, of "Suc j"] Suc show "\<not> P (xs ! j)" by auto
    qed
    have "\<not> P x" using Cons.prems [rule_format, of 0] Suc by auto
    with Cons.IH [OF a] show ?thesis by simp
  qed
qed

lemma filter_none:
  "(\<forall>j < length xs. \<not> P (xs ! j)) \<Longrightarrow> length (filter P xs) = 0"
  by (auto simp: filter_empty_conv in_set_conv_nth)

lemma inv_live: "consistent w \<Longrightarrow> live w \<le> 1"
proof (cases "eventSource (app w)")
  case None
  assume "consistent w"
  with None have "\<forall>j < length (sources w). \<not> readyState (sources w ! j) \<noteq> CLOSED"
    by (simp add: consistent_def)
  then have "live w = 0" unfolding live_def by (rule filter_none)
  then show ?thesis by simp
next
  case (Some i)
  assume "consistent w"
  with Some have "\<forall>j < length (sources w). j \<noteq> i \<longrightarrow> \<not> readyState (sources w ! j) \<noteq> CLOSED"
    by (simp add: consistent_def)
  then show ?thesis unfolding live_def by (rule filter_le_one)
qed

lemma close_nth:
  "j < length srcs \<Longrightarrow>
     readyState (close i srcs ! j) = (if j = i then CLOSED else readyState (srcs ! j))"
  by (simp add: close_def nth_list_update)

lemma close_length [simp]: "length (close i srcs) = length srcs"
  by (simp add: close_def)

lemma closed_close_previous:
  assumes "\<forall>j < length (sources w). eventSource (app w) \<noteq> Some j \<longrightarrow> readyState (sources w ! j) = CLOSED"
    and "j < length (sources w)"
  shows "readyState (sources (close_previous w) ! j) = CLOSED"
  using assms
  by (cases "eventSource (app w)") (auto simp: close_previous_def close_nth)

lemma close_previous_length [simp]: "length (sources (close_previous w)) = length (sources w)"
  by (simp add: close_previous_def split: option.splits)

lemma live_close_previous:
  assumes "\<forall>j < length (sources w). eventSource (app w) \<noteq> Some j \<longrightarrow> readyState (sources w ! j) = CLOSED"
  shows "live (close_previous w) = 0"
  unfolding live_def by (rule filter_none) (simp add: closed_close_previous [OF assms])

lemmas step_defs =
  step_def setState_def commit_eq deps_def useEffect_body_def open_next_def
  close_previous_def Let_def open_listener_def error_listener_def dispatch_def
  data_listener_def reset_chain_def upload_chain_def promise_catch_def promise_then_def
  drop_promise_def fetch_promise_def fetch_def

lemma inv_step: "consistent w \<Longrightarrow> consistent (step env ev w)"
  by (cases ev)
     (auto simp: consistent_def step_defs close_nth nth_append nth_list_update
           split: option.splits sum.splits fetch_outcome.splits chain.splits if_splits)

lemma inv_mount: "consistent (mount env)"
  by (auto simp: consistent_def mount_def initial_state_def commit_eq deps_def useEffect_body_def
        open_next_def close_previous_def Let_def)

lemma inv_run: "consistent w \<Longrightarrow> consistent (run env evs w)"
  by (induction evs arbitrary: w) (simp_all add: inv_step)


lemma step_closed:
  assumes "j < length (sources w)" and "readyState (sources w ! j) = CLOSED"
  shows "j < length (sources (step env ev w)) \<and> readyState (sources (step env ev w) ! j) = CLOSED"
  using assms
  by (cases ev)
     (auto simp: step_defs close_nth nth_append nth_list_update
           split: option.splits sum.splits fetch_outcome.splits chain.splits if_splits)

lemma run_closed:
  "j < length (sources w) \<Longrightarrow> readyState (sources w ! j) = CLOSED \<Longrightarrow>
     j < length (sources (run env evs w)) \<and> readyState (sources (run env evs w) ! j) = CLOSED"
  by (induction evs arbitrary: w) (simp_all add: step_closed)

lemma step_sources_length:
  assumes "consistent w" and "ev \<noteq> Click_Set_and_use"
  shows "length (sources (step env ev w)) = length (sources w)"
  using assms
  by (cases ev)
     (auto simp: consistent_def step_defs
           split: option.splits sum.splits fetch_outcome.splits chain.splits if_splits)

lemma run_sources_length:
  "consistent w \<Longrightarrow> Click_Set_and_use \<notin> set evs \<Longrightarrow>
     length (sources (run env evs w)) = length (sources w)"
proof (induction evs arbitrary: w)
  case Nil
  then show ?case by simp
next
  case (Cons ev evs)
  then have "ev \<noteq> Click_Set_and_use" "Click_Set_and_use \<notin> set evs" by auto
  with Cons.IH [OF inv_step [OF Cons.prems(1)], of env ev] Cons.prems(1)
  show ?case by (simp add: step_sources_length)
qed

lemma step_Set_and_use:
  assumes "consistent w" and "mounted w"
  shows "step env Click_Set_and_use w
           = open_next env (close_previous (handler env Click_Set_and_use w))"
  using assms
  by (simp add: consistent_def step_def setState_def commit_eq deps_def useEffect_body_def)

lemma handler_Set_and_use_others:
  assumes "consistent w"
  shows "\<forall>j < length (sources (handler env Click_Set_and_use w)).
           eventSource (app (handler env Click_Set_and_use w)) \<noteq> Some j \<longrightarrow>
           readyState (sources (handler env Click_Set_and_use w) ! j) = CLOSED"
  using assms by (simp add: consistent_def setState_def)

lemma consistent_reachable: "consistent (run env evs (mount env))"
  by (rule inv_run) (rule inv_mount)

lemma live_source_mounted:
  "consistent w \<Longrightarrow> i < length (sources w) \<Longrightarrow> readyState (sources w ! i) \<noteq> CLOSED \<Longrightarrow> mounted w"
  by (auto simp: consistent_def)

lemma step_Source_error:
  assumes "mounted w" and "i < length (sources w)" and "readyState (sources w ! i) \<noteq> CLOSED"
  shows "step env (Source_error i) w =
           w\<lparr>app := (app w)\<lparr>connectionError := Some ''Connection could not be established''\<rparr>,
             sources := close i (sources w)\<rparr>"
  using assms
  by (simp add: step_def error_listener_def setState_def commit_eq deps_def Let_def)

section \<open>Single steps\<close>

lemma half_pi: "fdiv Math_PI (fnat 2) = Finite False 7074237752028440 (- 52)"
  by code_simp

lemma fnat_0: "fnat 0 = Finite False 0 (- 1074)"
  by code_simp

lemma step_rotate_X:
  "mounted w \<Longrightarrow>
     step env Click_Rotate_X w = w\<lparr>app := (app w)\<lparr>modelRotation := rotate_X (modelRotation (app w))\<rparr>\<rparr>"
  by (simp add: step_def setState_def commit_eq deps_def)

lemma step_rotate_Y:
  "mounted w \<Longrightarrow>
     step env Click_Rotate_Y w = w\<lparr>app := (app w)\<lparr>modelRotation := rotate_Y (modelRotation (app w))\<rparr>\<rparr>"
  by (simp add: step_def setState_def commit_eq deps_def)

lemma step_Cancel_and_reset:
  assumes "consistent w" and "mounted w"
  shows "step env Click_Cancel_and_reset w =
           w\<lparr>app := (app w)\<lparr>connectionUrl := window_location_origin env,
                              connectionDialogOpen := False\<rparr>\<rparr>"
  using assms
  by (simp add: consistent_def step_def setState_def commit_eq useEffect_body_def)

lemma step_Reset_device_rotation:
  assumes "mounted w"
  shows "step env Click_Reset_device_rotation w =
           w\<lparr>fetches := fetches w @
               [\<lparr>fetch_method = ''GET'', fetch_url = connectionUrl (app w) @ ''/reset'',
                 fetch_body = None, fetch_chain = Reset_chain, settled = False\<rparr>]\<rparr>"
  using assms by (simp add: step_def fetch_def commit_eq)

lemma step_Input_file:
  assumes "mounted w"
  shows "step env (Input_file (Some f)) w =
           w\<lparr>fetches := fetches w @
               [\<lparr>fetch_method = ''POST'', fetch_url = connectionUrl (app w) @ ''/uploadModel'',
                 fetch_body = Some f, fetch_chain = Upload_chain (connectionUrl (app w)),
                 settled = False\<rparr>]\<rparr>"
  using assms by (simp add: step_def fetch_def commit_eq)

lemma fadd_0_0: "fadd (fnat 0) (fnat 0) = fnat 0"
  by code_simp

lemma fadd_0_half_pi: "fadd (fnat 0) (fdiv Math_PI (fnat 2)) = fdiv Math_PI (fnat 2)"
  by code_simp

lemma step_Source_data:
  assumes "JSON_parse env event_data = Inr d"
    and "mounted w" and "i < length (sources w)" and "readyState (sources w ! i) = OPEN"
  shows "step env (Source_data i event_data) w
           = w\<lparr>app := (app w)\<lparr>rotation := (data_x d, data_z d, data_y d)\<rparr>\<rparr>"
  using assms
  by (simp add: step_def dispatch_def data_listener_def setState_def commit_eq deps_def)

text \<open>
  The two promise chains: the upload's \<^verbatim>\<open>.catch()\<close> handles nothing, the reset's
  \<^verbatim>\<open>.catch\<close> logs the error.
\<close>

lemma upload_chain_Response:
  "mounted w \<Longrightarrow> status \<noteq> 404 \<Longrightarrow>
     upload_chain u (Response status) w = w\<lparr>app := (app w)\<lparr>model := Some (u @ ''/model.glb'')\<rparr>\<rparr>"
  "upload_chain u (Response 404) w = w"
  "upload_chain u NetworkFailure w = w\<lparr>uncaught := uncaught w @ [TypeError]\<rparr>"
  by (simp_all add: upload_chain_def drop_promise_def promise_catch_def promise_then_def
        fetch_promise_def setState_def)

lemma reset_chain_NetworkFailure:
  "reset_chain NetworkFailure w = w\<lparr>console := console w @ [Error TypeError]\<rparr>"
  "reset_chain (Response status) w = w"
  by (simp_all add: reset_chain_def drop_promise_def promise_catch_def fetch_promise_def)

section \<open>Telemetry samples\<close>

text \<open>
  Claim C1. For every sample \<open>{x, y, z}\<close> that a \<^verbatim>\<open>data\<close> event of an open source
  carries, the state cell \<^verbatim>\<open>rotation\<close> becomes exactly \<open>(x, z, y)\<close>, and this triple is
  the \<^verbatim>\<open>rotation\<close> prop that \<^verbatim>\<open>App\<close> hands to \<^verbatim>\<open>Scene\<close>; the other props are those of
  the state before.
\<close>

theorem C1_data_event_rotation:
  assumes "JSON_parse env event_data = Inr (GyroData x y z)"
    and "mounted w"
    and "i < length (sources w)"
    and "readyState (sources w ! i) = OPEN"
  shows "rotation (app (step env (Source_data i event_data) w)) = (x, z, y)
       \<and> scene (App_view (app (step env (Source_data i event_data) w))) =
           Scene (Some (modelRotation (app w))) (model (app w)) (modelScale (app w)) (x, z, y)"
  using assms
  by (simp add: step_def dispatch_def data_listener_def setState_def commit_eq deps_def
        App_view_def)

text \<open>
  The sample \<open>{x: 1.0, y: 2.0, z: 3.0}\<close> on the first connection, before any offset: the
  rotation in the state and the rotation \<^verbatim>\<open>Scene\<close> renders are both \<open>(1, 3, 2)\<close>.
\<close>

theorem C1_sample_1_2_3:
  "let env = page (parse_gives (GyroData (fnat 1) (fnat 2) (fnat 3)));
       w = run env [Source_open 0] (mount env);
       w' = step env (Source_data 0 ''x:1.0,y:2.0,z:3.0'') w
   in JSON_parse env ''x:1.0,y:2.0,z:3.0'' = Inr (GyroData (fnat 1) (fnat 2) (fnat 3))
    \<and> mounted w \<and> 0 < length (sources w) \<and> readyState (sources w ! 0) = OPEN
    \<and> rotation (app w') = (fnat 1, fnat 3, fnat 2)
    \<and> element_rotation (scene (App_view (app w'))) = (fnat 1, fnat 3, fnat 2)"
proof -
  let ?env = "page (parse_gives (GyroData (fnat 1) (fnat 2) (fnat 3)))"
  let ?w = "run ?env [Source_open 0] (mount ?env)"
  have h1: "JSON_parse ?env ''x:1.0,y:2.0,z:3.0'' = Inr (GyroData (fnat 1) (fnat 2) (fnat 3))"
    by (simp add: page_def parse_fails_def parse_gives_def)
  have h2: "mounted ?w" by code_simp
  have h3: "0 < length (sources ?w)" by code_simp
  have h4: "readyState (sources ?w ! 0) = OPEN" by code_simp
  have m: "modelRotation (app ?w) = (fnat 0, fnat 0, fnat 0)" by code_simp
  have a: "fadd (fnat 1) (fnat 0) = fnat 1" "fadd (fnat 3) (fnat 0) = fnat 3"
    "fadd (fnat 2) (fnat 0) = fnat 2" by code_simp+
  note r = C1_data_event_rotation [OF h1 h2 h3 h4]
  have "element_rotation (scene (App_view (app (step ?env (Source_data 0 ''x:1.0,y:2.0,z:3.0'') ?w))))
          = (fnat 1, fnat 3, fnat 2)"
    using m a by (simp add: r Scene_def Let_def del: run.simps split: option.splits)
  with r h1 h2 h3 h4 show ?thesis by (simp add: Let_def del: run.simps)
qed

section \<open>Composition with the offset\<close>

text \<open>
  Claim C2. For every base rotation \<open>(b0, b1, b2)\<close>, offset \<open>(o0, o1, o2)\<close>, scale and
  model, the element \<^verbatim>\<open>Scene\<close> renders has on each axis the rotation base + offset (the
  \<^verbatim>\<open>+\<close> of the source) and has the scale prop unchanged: the base takes no part in it.
  \<^verbatim>\<open>App\<close> passes the cell \<^verbatim>\<open>rotation\<close> as the base, and the user's \<^verbatim>\<open>modelRotation\<close> and
  \<^verbatim>\<open>modelScale\<close> as the offset and the scale.
\<close>

theorem C2_compose:
  "element_rotation (Scene (Some (o0, o1, o2)) gltf s (b0, b1, b2))
     = (fadd b0 o0, fadd b1 o1, fadd b2 o2)
   \<and> element_scale (Scene (Some (o0, o1, o2)) gltf s (b0, b1, b2)) = s
   \<and> scene (App_view a) = Scene (Some (modelRotation a)) (model a) (modelScale a) (rotation a)"
  by (simp add: Scene_def App_view_def Let_def split: option.splits)

section \<open>Malformed payloads\<close>



section \<open>One connection at a time\<close>

text \<open>
  Claim C3. In every state the component can reach from mounting, at most one
  \<^verbatim>\<open>EventSource\<close> is not closed. When a new endpoint is applied (Set and use), the effect
  first closes the source the state holds, so that no source at all is left open, and only
  then creates the next one.
\<close>

theorem C3_at_most_one_connection:
  assumes "w = run env evs (mount env)"
  shows "live w \<le> 1 \<and>
         (mounted w \<longrightarrow>
            live (close_previous (handler env Click_Set_and_use w)) = 0 \<and>
            step env Click_Set_and_use w
              = open_next env (close_previous (handler env Click_Set_and_use w)))"
proof -
  have i: "consistent w" unfolding assms by (rule inv_run) (rule inv_mount)
  then have "live w \<le> 1" by (rule inv_live)
  moreover have "live (close_previous (handler env Click_Set_and_use w)) = 0"
    by (rule live_close_previous) (rule handler_Set_and_use_others [OF i])
  ultimately show ?thesis using step_Set_and_use [OF i] by simp
qed

text \<open>
  A second endpoint applied while the first connection is open: one connection before, none
  between closing and creating, and afterwards the first source closed beside the new one.
\<close>

theorem C3_second_endpoint:
  "let env = page parse_fails;
       w = run env [Source_open 0, Click_Setup_connection,
                    Input_connectionUrl ''http://10.0.0.2:8080''] (mount env)
   in w = run env [Source_open 0, Click_Setup_connection,
                   Input_connectionUrl ''http://10.0.0.2:8080''] (mount env)
    \<and> mounted w \<and> live w = 1
    \<and> live (close_previous (handler env Click_Set_and_use w)) = 0
    \<and> sources (step env Click_Set_and_use w) =
        [\<lparr>src_url = ''http://localhost:5173/events'', readyState = CLOSED\<rparr>,
         \<lparr>src_url = ''http://10.0.0.2:8080/events'', readyState = CONNECTING\<rparr>]"
proof -
  let ?env = "page parse_fails"
  let ?w = "run ?env [Source_open 0, Click_Setup_connection,
                    Input_connectionUrl ''http://10.0.0.2:8080''] (mount ?env)"
  have m: "mounted ?w" by code_simp
  have l: "live ?w = 1" by code_simp
  have s: "sources (open_next ?env (close_previous (handler ?env Click_Set_and_use ?w))) =
        [\<lparr>src_url = ''http://localhost:5173/events'', readyState = CLOSED\<rparr>,
         \<lparr>src_url = ''http://10.0.0.2:8080/events'', readyState = CONNECTING\<rparr>]"
    by code_simp
  from C3_at_most_one_connection [OF refl, of ?env "[Source_open 0, Click_Setup_connection,
                    Input_connectionUrl ''http://10.0.0.2:8080'']"] m l s
  show ?thesis by (simp add: Let_def del: run.simps handler.simps)
qed


section \<open>Transport errors\<close>

text \<open>
  Claim C6. When a source that is connecting or open gets an \<^verbatim>\<open>error\<close> event, in any state
  reachable from mounting: the source is closed and no source is created; the error cell
  holds the message, which the view shows; and afterwards the source stays closed and no new
  source appears for as long as the user does not apply an endpoint again.
\<close>

theorem C6_transport_error:
  assumes "w = run env evs (mount env)"
    and "i < length (sources w)"
    and "readyState (sources w ! i) \<noteq> CLOSED"
    and "w' = step env (Source_error i) w"
  shows "sources w' = close i (sources w)
       \<and> readyState (sources w' ! i) = CLOSED
       \<and> connectionError (app w') = Some ''Connection could not be established''
       \<and> banner (App_view (app w')) = Some ''Connection could not be established''
       \<and> (\<forall>evs'. Click_Set_and_use \<notin> set evs' \<longrightarrow>
             length (sources (run env evs' w')) = length (sources w)
           \<and> readyState (sources (run env evs' w') ! i) = CLOSED)"
proof -
  have c: "consistent w" unfolding assms(1) by (rule consistent_reachable)
  then have m: "mounted w" using assms(2,3) by (rule live_source_mounted)
  note e = step_Source_error [OF m assms(2,3), of env]
  have s: "sources w' = close i (sources w)" by (simp add: assms(4) e)
  then have cl: "i < length (sources w')" "readyState (sources w' ! i) = CLOSED"
    using assms(2) by (simp_all add: close_nth)
  have c': "consistent w'" unfolding assms(4) by (rule inv_step) (rule c)
  have "length (sources (run env evs' w')) = length (sources w)
         \<and> readyState (sources (run env evs' w') ! i) = CLOSED"
    if "Click_Set_and_use \<notin> set evs'" for evs'
    using run_sources_length [OF c' that, of env] run_closed [OF cl, of env evs'] s by simp
  moreover have "connectionError (app w') = Some ''Connection could not be established''"
    by (simp add: assms(4) e)
  moreover from this
  have "banner (App_view (app w')) = Some ''Connection could not be established''"
    by (simp add: App_view_def truthy_def)
  ultimately show ?thesis using s cl by blast
qed

text \<open>
  The first connection fails while connecting: it is closed, the banner shows the message,
  and later events of that source change nothing.
\<close>

theorem C6_error_while_connecting:
  "let env = page parse_fails;
       w = run env [] (mount env);
       w' = step env (Source_error 0) w
   in 0 < length (sources w) \<and> readyState (sources w ! 0) = CONNECTING
    \<and> sources w' = [\<lparr>src_url = ''http://localhost:5173/events'', readyState = CLOSED\<rparr>]
    \<and> banner (App_view (app w')) = Some ''Connection could not be established''
    \<and> sources (run env [Source_open 0, Click_Reset_device_rotation, Source_error 0] w') = sources w'"
proof -
  let ?env = "page parse_fails"
  let ?w = "run ?env [] (mount ?env)"
  let ?w' = "step ?env (Source_error 0) ?w"
  have h2: "0 < length (sources ?w)" by code_simp
  have h3: "readyState (sources ?w ! 0) = CONNECTING" by code_simp
  then have h3': "readyState (sources ?w ! 0) \<noteq> CLOSED" by simp
  have s: "close 0 (sources ?w) = [\<lparr>src_url = ''http://localhost:5173/events'', readyState = CLOSED\<rparr>]"
    by code_simp
  have r: "sources (run ?env [Source_open 0, Click_Reset_device_rotation, Source_error 0] ?w') = sources ?w'"
    by code_simp
  from C6_transport_error [OF refl h2 h3' refl] h2 h3 s r
  show ?thesis by (simp add: Let_def del: run.simps)
qed

section \<open>The first connection\<close>

text \<open>
  Mounting alone, with no event after it: a connection to the page origin is already being
  established, although the user has applied nothing.
\<close>

theorem C7_connection_on_mount:
  "sources (run (page parse_fails) [] (mount (page parse_fails)))
     = [\<lparr>src_url = ''http://localhost:5173/events'', readyState = CONNECTING\<rparr>]"
  by code_simp

text \<open>
  Claim C7, as the code has it. The flag \<^verbatim>\<open>changeConnectionUrl\<close> starts \<^verbatim>\<open>true\<close>, so mounting
  is itself the first attempt: the first effect creates the \<^verbatim>\<open>EventSource\<close> for
  \<^verbatim>\<open>{origin}/events\<close> (when the constructor accepts that URL). After that, no event other
  than Set and use creates a source.
\<close>

theorem C7_mount_connects_then_only_apply:
  "mount env = open_next env \<lparr>app = initial_state env, mounted = True, sources = [],
                               fetches = [], console = [], uncaught = []\<rparr>
   \<and> (url_resolves env (window_location_origin env @ ''/events'') \<longrightarrow>
        sources (mount env)
          = [\<lparr>src_url = window_location_origin env @ ''/events'', readyState = CONNECTING\<rparr>])
   \<and> (\<forall>evs. Click_Set_and_use \<notin> set evs \<longrightarrow>
        length (sources (run env evs (mount env))) = length (sources (mount env)))"
proof -
  have m: "mount env = open_next env \<lparr>app = initial_state env, mounted = True, sources = [],
                               fetches = [], console = [], uncaught = []\<rparr>"
    by (simp add: mount_def Let_def useEffect_body_def close_previous_def initial_state_def
          commit_eq deps_def open_next_def)
  then have "url_resolves env (window_location_origin env @ ''/events'') \<Longrightarrow>
        sources (mount env)
          = [\<lparr>src_url = window_location_origin env @ ''/events'', readyState = CONNECTING\<rparr>]"
    by (simp add: open_next_def initial_state_def Let_def)
  moreover have "length (sources (run env evs (mount env))) = length (sources (mount env))"
    if "Click_Set_and_use \<notin> set evs" for evs
    using inv_mount that by (rule run_sources_length)
  ultimately show ?thesis using m by blast
qed

text \<open>
  Editing the URL and cancelling, with the first connection open: still the one source
  created at mounting.
\<close>

theorem C7_no_connection_without_apply:
  "let env = page parse_fails;
       evs = [Source_open 0, Click_Setup_connection, Input_connectionUrl ''http://10.0.0.2:8080'',
              Click_Cancel_and_reset, Click_Rotate_X]
   in url_resolves env (window_location_origin env @ ''/events'')
    \<and> Click_Set_and_use \<notin> set evs
    \<and> sources (mount env) = [\<lparr>src_url = ''http://localhost:5173/events'', readyState = CONNECTING\<rparr>]
    \<and> length (sources (run env evs (mount env))) = 1"
proof -
  let ?env = "page parse_fails"
  let ?evs = "[Source_open 0, Click_Setup_connection, Input_connectionUrl ''http://10.0.0.2:8080'',
              Click_Cancel_and_reset, Click_Rotate_X]"
  have u: "url_resolves ?env (window_location_origin ?env @ ''/events'')"
    by (simp add: page_def parse_fails_def parse_gives_def)
  have o: "window_location_origin ?env = ''http://localhost:5173''"
    by (simp add: page_def parse_fails_def parse_gives_def)
  have n: "Click_Set_and_use \<notin> set ?evs" by simp
  note t = C7_mount_connects_then_only_apply [of ?env]
  have s: "sources (mount ?env)
             = [\<lparr>src_url = ''http://localhost:5173/events'', readyState = CONNECTING\<rparr>]"
    using conjunct1 [OF conjunct2 [OF t]] u o by simp
  have "length (sources (run ?env ?evs (mount ?env))) = length (sources (mount ?env))"
    using conjunct2 [OF conjunct2 [OF t]] n by blast
  with s have "length (sources (run ?env ?evs (mount ?env))) = 1" by simp
  with s u n show ?thesis by (simp add: Let_def del: run.simps)
qed


section \<open>Cancel and reset\<close>

text \<open>
  Claim C10. In any state reachable from mounting, with the tree mounted, Cancel and reset
  changes two cells only: \<^verbatim>\<open>connectionUrl\<close> becomes the page origin and the connection
  dialog closes. The sources, the source the state holds and the error cell are as before,
  so the stream keeps the endpoint applied last. A reset request or an upload made next goes
  to the page origin.
\<close>

theorem C10_cancel_and_reset:
  assumes "w = run env evs (mount env)"
    and "mounted w"
    and "w' = step env Click_Cancel_and_reset w"
  shows "w' = w\<lparr>app := (app w)\<lparr>connectionUrl := window_location_origin env,
                                 connectionDialogOpen := False\<rparr>\<rparr>
       \<and> connectionUrl (app w') = window_location_origin env
       \<and> \<not> connectionDialogOpen (app w')
       \<and> sources w' = sources w
       \<and> eventSource (app w') = eventSource (app w)
       \<and> connectionError (app w') = connectionError (app w)
       \<and> fetches (step env Click_Reset_device_rotation w') = fetches w' @
           [\<lparr>fetch_method = ''GET'', fetch_url = window_location_origin env @ ''/reset'',
             fetch_body = None, fetch_chain = Reset_chain, settled = False\<rparr>]
       \<and> fetches (step env (Input_file (Some f)) w') = fetches w' @
           [\<lparr>fetch_method = ''POST'', fetch_url = window_location_origin env @ ''/uploadModel'',
             fetch_body = Some f, fetch_chain = Upload_chain (window_location_origin env),
             settled = False\<rparr>]"
proof -
  have c: "consistent w" unfolding assms(1) by (rule consistent_reachable)
  have e: "w' = w\<lparr>app := (app w)\<lparr>connectionUrl := window_location_origin env,
                                 connectionDialogOpen := False\<rparr>\<rparr>"
    unfolding assms(3) using c assms(2) by (rule step_Cancel_and_reset)
  show ?thesis
    using assms(2) by (simp add: e step_Reset_device_rotation step_Input_file)
qed

text \<open>
  A second endpoint is applied and open, a third is typed and then cancelled: the stream
  stays on the second, the reset request goes to the page origin.
\<close>

theorem C10_cancel_after_second_endpoint:
  "let env = page parse_fails;
       evs = [Source_open 0, Click_Setup_connection, Input_connectionUrl ''http://10.0.0.2:8080'',
              Click_Set_and_use, Source_open 1, Click_Setup_connection,
              Input_connectionUrl ''http://10.0.0.3:8080''];
       w = run env evs (mount env);
       w' = step env Click_Cancel_and_reset w
   in mounted w
    \<and> connectionUrl (app w) = ''http://10.0.0.3:8080''
    \<and> connectionUrl (app w') = ''http://localhost:5173''
    \<and> sources w' = [\<lparr>src_url = ''http://localhost:5173/events'', readyState = CLOSED\<rparr>,
                     \<lparr>src_url = ''http://10.0.0.2:8080/events'', readyState = OPEN\<rparr>]
    \<and> eventSource (app w') = Some 1
    \<and> map fetch_url (fetches (step env Click_Reset_device_rotation w'))
        = [''http://localhost:5173/reset'']"
proof -
  let ?env = "page parse_fails"
  let ?evs = "[Source_open 0, Click_Setup_connection, Input_connectionUrl ''http://10.0.0.2:8080'',
              Click_Set_and_use, Source_open 1, Click_Setup_connection,
              Input_connectionUrl ''http://10.0.0.3:8080'']"
  let ?w = "run ?env ?evs (mount ?env)"
  let ?w' = "step ?env Click_Cancel_and_reset ?w"
  have m: "mounted ?w" by code_simp
  have u: "connectionUrl (app ?w) = ''http://10.0.0.3:8080''" by code_simp
  have s: "sources ?w = [\<lparr>src_url = ''http://localhost:5173/events'', readyState = CLOSED\<rparr>,
                     \<lparr>src_url = ''http://10.0.0.2:8080/events'', readyState = OPEN\<rparr>]"
    by code_simp
  have e: "eventSource (app ?w) = Some 1" by code_simp
  have f: "fetches ?w = []" by code_simp
  have o: "window_location_origin ?env = ''http://localhost:5173''" by (simp add: page_def parse_fails_def parse_gives_def)
  note t = C10_cancel_and_reset [OF refl m refl, of "''ship.glb''"]
  have 1: "connectionUrl (app ?w') = ''http://localhost:5173''"
    using conjunct1 [OF conjunct2 [OF t]] o by simp
  have 2: "sources ?w' = sources ?w"
    using t by blast
  have 3: "eventSource (app ?w') = eventSource (app ?w)"
    using t by blast
  have 4: "fetches (step ?env Click_Reset_device_rotation ?w') = fetches ?w' @
           [\<lparr>fetch_method = ''GET'', fetch_url = window_location_origin ?env @ ''/reset'',
             fetch_body = None, fetch_chain = Reset_chain, settled = False\<rparr>]"
    using t by blast
  have 5: "fetches ?w' = fetches ?w"
    by (subst conjunct1 [OF t]) simp
  have 6: "map fetch_url (fetches (step ?env Click_Reset_device_rotation ?w'))
        = [''http://localhost:5173/reset'']"
    unfolding 4 5 f o by simp
  from m u 1 2 3 6 s e show ?thesis by (simp add: Let_def del: run.simps)
qed


section \<open>An offset on one axis\<close>

text \<open>
  Rotate model (Y) once, then the sample \<open>{x: 0, y: 0, z: 0}\<close>, on the first connection: the
  rendered rotation is \<open>(0, \<pi>/2, 0)\<close>, with \<open>\<pi>/2\<close> the binary64 value
  \<^verbatim>\<open>0x3FF921FB54442D18\<close>, and not \<open>(0, 0, 1.5708)\<close>, with 1.5708 the binary64 value
  \<^verbatim>\<open>0x3FF921FF2E48E8A7\<close>.
\<close>

theorem C4_offset_on_axis_1:
  "element_rotation
     (scene (App_view (app
        (run (page (parse_gives (GyroData (fnat 0) (fnat 0) (fnat 0))))
           [Source_open 0, Click_Rotate_Y, Source_data 0 ''x:0,y:0,z:0'']
           (mount (page (parse_gives (GyroData (fnat 0) (fnat 0) (fnat 0)))))))))
     = (fnat 0, Finite False 7074237752028440 (- 52), fnat 0)
   \<and> element_rotation
     (scene (App_view (app
        (run (page (parse_gives (GyroData (fnat 0) (fnat 0) (fnat 0))))
           [Source_open 0, Click_Rotate_Y, Source_data 0 ''x:0,y:0,z:0'']
           (mount (page (parse_gives (GyroData (fnat 0) (fnat 0) (fnat 0)))))))))
     \<noteq> (fnat 0, fnat 0, Finite False 7074254294673575 (- 52))"
  by code_simp

text \<open>
  Claim C4, as the code has it. With no offset so far, after Rotate model (Y), which adds
  \<^verbatim>\<open>Math.PI / 2\<close> (about 1.5708) to the offset at index 1, and then a sample
  \<open>{x: 0, y: 0, z: 0}\<close> on an open source, the rendered rotation is \<open>(0, \<pi>/2, 0)\<close>: the
  offset stays at index 1, since only the sample's axes are swapped.
\<close>

theorem C4_rotate_Y_then_zero_sample:
  assumes "JSON_parse env event_data = Inr (GyroData (fnat 0) (fnat 0) (fnat 0))"
    and "mounted w"
    and "modelRotation (app w) = (fnat 0, fnat 0, fnat 0)"
    and "i < length (sources w)"
    and "readyState (sources w ! i) = OPEN"
  shows "element_rotation
           (scene (App_view (app (run env [Click_Rotate_Y, Source_data i event_data] w))))
         = (fnat 0, fdiv Math_PI (fnat 2), fnat 0)"
proof -
  let ?w1 = "w\<lparr>app := (app w)\<lparr>modelRotation := (fnat 0, fdiv Math_PI (fnat 2), fnat 0)\<rparr>\<rparr>"
  have 1: "step env Click_Rotate_Y w = ?w1"
    using assms(2,3) by (simp add: step_rotate_Y rotate_Y_def fadd_0_half_pi)
  have 2: "step env (Source_data i event_data) ?w1
             = ?w1\<lparr>app := (app ?w1)\<lparr>rotation := (fnat 0, fnat 0, fnat 0)\<rparr>\<rparr>"
    using step_Source_data [OF assms(1), of ?w1 i] assms(2,4,5) by simp
  show ?thesis
    by (simp add: 1 2 App_view_def Scene_def Let_def fadd_0_0 fadd_0_half_pi
          split: option.splits)
qed

text \<open>The same on the first connection, from the initial state.\<close>

theorem C4_first_connection:
  "let env = page (parse_gives (GyroData (fnat 0) (fnat 0) (fnat 0)));
       w = run env [Source_open 0] (mount env)
   in JSON_parse env ''x:0,y:0,z:0'' = Inr (GyroData (fnat 0) (fnat 0) (fnat 0))
    \<and> mounted w \<and> modelRotation (app w) = (fnat 0, fnat 0, fnat 0)
    \<and> 0 < length (sources w) \<and> readyState (sources w ! 0) = OPEN
    \<and> element_rotation
         (scene (App_view (app (run env [Click_Rotate_Y, Source_data 0 ''x:0,y:0,z:0''] w))))
       = (fnat 0, fdiv Math_PI (fnat 2), fnat 0)"
proof -
  let ?env = "page (parse_gives (GyroData (fnat 0) (fnat 0) (fnat 0)))"
  let ?w = "run ?env [Source_open 0] (mount ?env)"
  have h1: "JSON_parse ?env ''x:0,y:0,z:0'' = Inr (GyroData (fnat 0) (fnat 0) (fnat 0))"
    by (simp add: page_def parse_fails_def parse_gives_def)
  have h2: "mounted ?w" by code_simp
  have h3: "modelRotation (app ?w) = (fnat 0, fnat 0, fnat 0)" by code_simp
  have h4: "0 < length (sources ?w)" by code_simp
  have h5: "readyState (sources ?w ! 0) = OPEN" by code_simp
  from C4_rotate_Y_then_zero_sample [OF h1 h2 h3 h4 h5] h1 h2 h3 h4 h5
  show ?thesis by (simp add: Let_def del: run.simps)
qed

section \<open>Four quarter turns\<close>

text \<open>
  After ten clicks on Rotate model (X) the offset is \<open>r\<close> = \<^verbatim>\<open>0x402F6A7A2955385E\<close>. Four
  more clicks leave \<^verbatim>\<open>0x4035FDBBE9BBA776\<close>, while \<open>r + 2\<pi>\<close>, that is
  \<^verbatim>\<open>r + 2 * Math.PI\<close>, is \<^verbatim>\<open>0x4035FDBBE9BBA775\<close>: the four rounded additions and the
  single one differ in the last bit.
\<close>

theorem C8_ten_turns_then_four:
  "fst (modelRotation (app (run (page parse_fails) (replicate 10 Click_Rotate_X)
                              (mount (page parse_fails)))))
     = Finite False 8842797190035550 (- 49)
   \<and> fst (modelRotation (app (run (page parse_fails) (replicate 4 Click_Rotate_X)
                              (run (page parse_fails) (replicate 10 Click_Rotate_X)
                                 (mount (page parse_fails))))))
     = Finite False 6189958033024886 (- 48)
   \<and> fadd (Finite False 8842797190035550 (- 49)) (fadd Math_PI Math_PI)
     = Finite False 6189958033024885 (- 48)
   \<and> fst (modelRotation (app (run (page parse_fails) (replicate 4 Click_Rotate_X)
                              (run (page parse_fails) (replicate 10 Click_Rotate_X)
                                 (mount (page parse_fails))))))
     \<noteq> fadd (fst (modelRotation (app (run (page parse_fails) (replicate 10 Click_Rotate_X)
                                          (mount (page parse_fails))))))
             (fadd Math_PI Math_PI)"
  by code_simp

text \<open>
  Claim C8, as the code has it. Four clicks on Rotate model (X) from the offset
  \<open>(r, ry, rz)\<close> leave \<open>(((r + \<pi>/2) + \<pi>/2) + \<pi>/2) + \<pi>/2\<close> on the X axis, each \<^verbatim>\<open>+\<close>
  rounded as the source's is, and leave the other two axes alone: nothing wraps or
  normalises the angle. From \<open>r = 0\<close> the four additions are exact and give \<open>2\<pi>\<close>, the
  binary64 value \<^verbatim>\<open>0x401921FB54442D18\<close> of \<^verbatim>\<open>2 * Math.PI\<close>.
\<close>

theorem C8_four_quarter_turns:
  assumes "mounted w"
    and "modelRotation (app w) = (r, ry, rz)"
  shows "modelRotation (app (run env (replicate 4 Click_Rotate_X) w))
           = (fadd (fadd (fadd (fadd r (fdiv Math_PI (fnat 2))) (fdiv Math_PI (fnat 2)))
                      (fdiv Math_PI (fnat 2))) (fdiv Math_PI (fnat 2)), ry, rz)
       \<and> fadd (fadd (fadd (fadd (fnat 0) (fdiv Math_PI (fnat 2))) (fdiv Math_PI (fnat 2)))
                      (fdiv Math_PI (fnat 2))) (fdiv Math_PI (fnat 2))
           = fadd Math_PI Math_PI
       \<and> fadd Math_PI Math_PI = Finite False 7074237752028440 (- 50)"
proof -
  have e: "fadd (fadd (fadd (fadd (fnat 0) (fdiv Math_PI (fnat 2))) (fdiv Math_PI (fnat 2)))
                      (fdiv Math_PI (fnat 2))) (fdiv Math_PI (fnat 2))
           = fadd Math_PI Math_PI"
    by code_simp
  have p: "fadd Math_PI Math_PI = Finite False 7074237752028440 (- 50)"
    by code_simp
  have n: "replicate 4 Click_Rotate_X = [Click_Rotate_X, Click_Rotate_X, Click_Rotate_X, Click_Rotate_X]"
    by (simp add: numeral_eq_Suc)
  have "modelRotation (app (run env (replicate 4 Click_Rotate_X) w))
           = (fadd (fadd (fadd (fadd r (fdiv Math_PI (fnat 2))) (fdiv Math_PI (fnat 2)))
                      (fdiv Math_PI (fnat 2))) (fdiv Math_PI (fnat 2)), ry, rz)"
    using assms by (simp add: n step_rotate_X rotate_X_def)
  with e p show ?thesis by simp
qed

text \<open>From the initial state: the X offset goes from 0 to \<open>2\<pi>\<close>.\<close>

theorem C8_from_zero_offset:
  "let env = page parse_fails; w = mount env
   in mounted w \<and> modelRotation (app w) = (fnat 0, fnat 0, fnat 0)
    \<and> modelRotation (app (run env (replicate 4 Click_Rotate_X) w))
        = (Finite False 7074237752028440 (- 50), fnat 0, fnat 0)"
proof -
  let ?env = "page parse_fails"
  have m: "mounted (mount ?env)" by code_simp
  have z: "modelRotation (app (mount ?env)) = (fnat 0, fnat 0, fnat 0)" by code_simp
  note t = C8_four_quarter_turns [OF m z, of ?env]
  have "modelRotation (app (run ?env (replicate 4 Click_Rotate_X) (mount ?env)))
        = (Finite False 7074237752028440 (- 50), fnat 0, fnat 0)"
    using t by (simp del: run.simps replicate.simps)
  with m z show ?thesis by (simp add: Let_def del: run.simps replicate.simps)
qed

section \<open>Model upload\<close>

text \<open>
  Claim C9, at an upload that fails in the network. A file is chosen, the request goes to
  \<^verbatim>\<open>{connectionUrl}/uploadModel\<close>, and \<^verbatim>\<open>fetch\<close> rejects. The state and the console stay as
  they were, but the rejection is not caught: \<^verbatim>\<open>.catch()\<close> has no callback, and the
  browser reports the \<^verbatim>\<open>TypeError\<close> as an unhandled rejection.
\<close>

theorem C9_upload_network_failure:
  "let env = page parse_fails;
       w = run env [Source_open 0, Click_Load_model, Input_file (Some ''ship.glb'')] (mount env);
       w' = step env (Fetch_settled 0 NetworkFailure) w
   in map fetch_url (fetches w) = [''http://localhost:5173/uploadModel'']
    \<and> uncaught w = []
    \<and> uncaught w' = [TypeError]
    \<and> app w' = app w
    \<and> console w' = console w"
  by code_simp

end
